theory Spec2Isabelle
  imports Main
begin

section \<open>Values, payloads and errors\<close>

text \<open>
  The relay server of \<^verbatim>\<open>src/server/app.py\<close> receives JSON payloads and keeps two
  process-wide dictionaries, \<^verbatim>\<open>sessions\<close> and \<^verbatim>\<open>socket_map\<close>. A JSON value is
  a \<open>jval\<close>; Python's \<^verbatim>\<open>None\<close> is \<open>JNull\<close>. An inbound payload \<^verbatim>\<open>data\<close> is a
  dictionary from field names to values.
\<close>

datatype jval =
    JNull
  | JBool bool
  | JInt int
  | JStr string
  | JList "jval list"
  | JObj "(string \<times> jval) list"

type_synonym message = "string \<rightharpoonup> jval"

type_synonym sid = string

datatype error = KeyError string | OSError

text \<open>\<^verbatim>\<open>data.get(k)\<close>: the value, or \<^verbatim>\<open>None\<close> when the key is absent.\<close>

definition dict_get :: "message \<Rightarrow> string \<Rightarrow> jval" where
  "dict_get data k = (case data k of None \<Rightarrow> JNull | Some v \<Rightarrow> v)"

text \<open>\<^verbatim>\<open>data.get(k, d)\<close>: the value, or \<open>d\<close> when the key is absent.\<close>

definition dict_get_default :: "message \<Rightarrow> string \<Rightarrow> jval \<Rightarrow> jval" where
  "dict_get_default data k d = (case data k of None \<Rightarrow> d | Some v \<Rightarrow> v)"

text \<open>\<^verbatim>\<open>data[k]\<close>: the value, or a raised \<^verbatim>\<open>KeyError\<close> when the key is absent.\<close>

definition dict_getitem :: "message \<Rightarrow> string \<Rightarrow> error + jval" where
  "dict_getitem data k = (case data k of None \<Rightarrow> Inl (KeyError k) | Some v \<Rightarrow> Inr v)"

section \<open>State\<close>

text \<open>
  A session record is the dictionary \<^verbatim>\<open>{'players': [], 'status': 'waiting'}\<close>; a
  binding is \<^verbatim>\<open>{'sessionId': session_id, 'role': role}\<close>. An emission records the
  arguments of one call of \<^verbatim>\<open>emit\<close>: the event name, the payload dictionary (in the
  order of the literal), the \<^verbatim>\<open>room\<close> argument and \<^verbatim>\<open>include_self\<close> (which
  is \<^verbatim>\<open>True\<close> unless the call passes \<^verbatim>\<open>include_self=False\<close>).
\<close>

record session =
  players :: "jval list"
  status :: string

record binding =
  sessionId :: jval
  role :: jval

record emission =
  event :: string
  payload :: "(string \<times> jval) list"
  room :: jval
  include_self :: bool

record state =
  sessions :: "string \<rightharpoonup> session"
  socket_map :: "sid \<rightharpoonup> binding"
  rooms :: "jval \<Rightarrow> sid set"

record response =
  resp_sessionId :: string
  ip :: string
  port :: int

text \<open>Both dictionaries start empty; no connection is in any room.\<close>

definition init_state :: state where
  "init_state = \<lparr>sessions = Map.empty, socket_map = Map.empty, rooms = (\<lambda>_. {})\<rparr>"

section \<open>The transport\<close>

text \<open>
  Modelled from the spec: the room membership and the room-scoped broadcast of the
  transport (\<^verbatim>\<open>join_room\<close> and \<^verbatim>\<open>emit\<close> are imported from the Socket.IO library,
  whose code is not part of the repository). \<open>join_room\<close> adds the calling
  connection to the room; an emission reaches the members of its room, without the
  sender when \<^verbatim>\<open>include_self\<close> is false.
\<close>

definition join_room :: "jval \<Rightarrow> sid \<Rightarrow> state \<Rightarrow> state" where
  "join_room r c st = st\<lparr>rooms := (rooms st)(r := insert c (rooms st r))\<rparr>"

definition recipients :: "state \<Rightarrow> sid \<Rightarrow> emission \<Rightarrow> sid set" where
  "recipients st c em =
     (if include_self em then rooms st (room em) else rooms st (room em) - {c})"

section \<open>Session creation\<close>

text \<open>
  \<^verbatim>\<open>get_local_ip\<close> first creates a datagram socket, then runs \<^verbatim>\<open>s.connect\<close> and
  \<^verbatim>\<open>s.getsockname()[0]\<close> inside a \<^verbatim>\<open>try\<close> whose \<^verbatim>\<open>except Exception\<close> branch sets
  the loopback address. What the operating system answers is the parameter \<open>probe\<close>:
  \<open>SocketFailed\<close> when \<^verbatim>\<open>socket.socket\<close> itself raises \<^verbatim>\<open>OSError\<close> (the call stands
  before the \<^verbatim>\<open>try\<close>, so the error leaves the function), \<open>Raised\<close> when an exception
  is raised inside the \<^verbatim>\<open>try\<close> block, and \<open>Connected a\<close> when the address \<open>a\<close> is
  read from the socket.
\<close>

datatype probe = SocketFailed | Raised | Connected string

definition get_local_ip :: "probe \<Rightarrow> error + string" where
  "get_local_ip p =
     (case p of
        SocketFailed \<Rightarrow> Inl OSError
      | Raised \<Rightarrow> Inr ''127.0.0.1''
      | Connected a \<Rightarrow> Inr a)"

text \<open>
  \<^verbatim>\<open>create_session\<close>: \<open>u\<close> is the string of the UUID that \<^verbatim>\<open>uuid.uuid4()\<close>
  returns; the session identifier is its first eight characters. The address is
  looked up before the record is stored, so an error of \<^verbatim>\<open>get_local_ip\<close> leaves the
  handler with nothing stored.
\<close>

definition create_session :: "string \<Rightarrow> probe \<Rightarrow> state \<Rightarrow> error + (state \<times> response)" where
  "create_session u p st =
     (let session_id = take 8 u
      in case get_local_ip p of
           Inl e \<Rightarrow> Inl e
         | Inr addr \<Rightarrow>
             Inr (st\<lparr>sessions := (sessions st)(session_id \<mapsto> \<lparr>players = [], status = ''waiting''\<rparr>)\<rparr>,
                  \<lparr>resp_sessionId = session_id, ip = addr, port = 5173\<rparr>))"

section \<open>Event handlers\<close>

text \<open>
  Each handler takes the identifier of the sending connection (\<^verbatim>\<open>request.sid\<close>), the
  payload and the state, and returns either the raised error or the new state with
  the emissions it made, in order.
\<close>

definition handle_join :: "sid \<Rightarrow> message \<Rightarrow> state \<Rightarrow> error + (state \<times> emission list)" where
  "handle_join c data st =
     (let session_id = dict_get data ''sessionId'';
          role = dict_get data ''role'';
          st1 = join_room session_id c st;
          st2 = st1\<lparr>socket_map := (socket_map st1)(c \<mapsto> \<lparr>sessionId = session_id, role = role\<rparr>)\<rparr>
      in if role = JStr ''controller'' then
           (let name = dict_get_default data ''name'' (JStr ''Player'')
            in Inr (st2, [\<lparr>event = ''player_joined'', payload = [(''name'', name)],
                           room = session_id, include_self = True\<rparr>]))
         else if role = JStr ''desktop'' then
           Inr (st2, [\<lparr>event = ''desktop_ready'', payload = [(''sessionId'', session_id)],
                       room = session_id, include_self = True\<rparr>])
         else Inr (st2, []))"

definition handle_control :: "sid \<Rightarrow> message \<Rightarrow> state \<Rightarrow> error + (state \<times> emission list)" where
  "handle_control c data st =
     (let session_id = dict_get data ''sessionId''
      in case dict_getitem data ''direction'' of
           Inl e \<Rightarrow> Inl e
         | Inr d \<Rightarrow> Inr (st, [\<lparr>event = ''control'', payload = [(''direction'', d)],
                                room = session_id, include_self = False\<rparr>]))"

definition handle_start :: "sid \<Rightarrow> message \<Rightarrow> state \<Rightarrow> error + (state \<times> emission list)" where
  "handle_start c data st =
     (let session_id = dict_get data ''sessionId''
      in Inr (st, [\<lparr>event = ''game_started'', payload = [],
                     room = session_id, include_self = True\<rparr>]))"

definition handle_end :: "sid \<Rightarrow> message \<Rightarrow> state \<Rightarrow> error + (state \<times> emission list)" where
  "handle_end c data st =
     (let session_id = dict_get data ''sessionId'';
          score = dict_get_default data ''score'' (JInt 0);
          coins = dict_get_default data ''coins'' (JInt 0)
      in Inr (st, [\<lparr>event = ''game_ended'', payload = [(''score'', score), (''coins'', coins)],
                     room = session_id, include_self = True\<rparr>]))"

definition handle_score :: "sid \<Rightarrow> message \<Rightarrow> state \<Rightarrow> error + (state \<times> emission list)" where
  "handle_score c data st =
     (let session_id = dict_get data ''sessionId''
      in Inr (st, [\<lparr>event = ''score_update'',
                     payload = [(''score'', dict_get_default data ''score'' (JInt 0)),
                                (''coins'', dict_get_default data ''coins'' (JInt 0))],
                     room = session_id, include_self = False\<rparr>]))"

definition handle_restart :: "sid \<Rightarrow> message \<Rightarrow> state \<Rightarrow> error + (state \<times> emission list)" where
  "handle_restart c data st =
     (let session_id = dict_get data ''sessionId''
      in Inr (st, [\<lparr>event = ''restart_game'', payload = [],
                     room = session_id, include_self = False\<rparr>]))"

text \<open>
  \<^verbatim>\<open>socket_map.pop(sid, None)\<close> reads and deletes the binding. A binding is a
  dictionary of two keys, so \<^verbatim>\<open>if info\<close> is true exactly when one was found.
\<close>

definition handle_disconnect :: "sid \<Rightarrow> state \<Rightarrow> error + (state \<times> emission list)" where
  "handle_disconnect c st =
     (let info = socket_map st c;
          st1 = st\<lparr>socket_map := (socket_map st)(c := None)\<rparr>
      in case info of
           None \<Rightarrow> Inr (st1, [])
         | Some b \<Rightarrow>
             if role b = JStr ''controller'' then
               (let session_id = sessionId b
                in Inr (st1, [\<lparr>event = ''controller_disconnected'', payload = [],
                               room = session_id, include_self = True\<rparr>]))
             else Inr (st1, []))"

section \<open>Traces of events\<close>

text \<open>
  The server handles one inbound event after another. A handler that raises ends
  there: \<^verbatim>\<open>handle_control\<close> raises while the arguments of \<^verbatim>\<open>emit\<close> are evaluated
  and \<^verbatim>\<open>create_session\<close> while the address is looked up, before anything is sent or
  stored, so the state stays as it was.
\<close>

datatype inbound =
    CreateSession string probe
  | JoinSession sid message
  | Control sid message
  | StartGame sid message
  | EndGame sid message
  | ScoreUpdate sid message
  | RestartGame sid message
  | Disconnect sid

definition settle :: "state \<Rightarrow> error + (state \<times> emission list) \<Rightarrow> state \<times> emission list" where
  "settle st r = (case r of Inl e \<Rightarrow> (st, []) | Inr x \<Rightarrow> x)"

fun dispatch :: "inbound \<Rightarrow> state \<Rightarrow> state \<times> emission list" where
  "dispatch (CreateSession u p) st =
     (case create_session u p st of Inl e \<Rightarrow> (st, []) | Inr (st', resp) \<Rightarrow> (st', []))"
| "dispatch (JoinSession c data) st = settle st (handle_join c data st)"
| "dispatch (Control c data) st = settle st (handle_control c data st)"
| "dispatch (StartGame c data) st = settle st (handle_start c data st)"
| "dispatch (EndGame c data) st = settle st (handle_end c data st)"
| "dispatch (ScoreUpdate c data) st = settle st (handle_score c data st)"
| "dispatch (RestartGame c data) st = settle st (handle_restart c data st)"
| "dispatch (Disconnect c) st = settle st (handle_disconnect c st)"

fun run :: "state \<Rightarrow> inbound list \<Rightarrow> state" where
  "run st [] = st"
| "run st (e # es) = run (fst (dispatch e st)) es"

text \<open>The events of the relay engine: every inbound event but session creation.\<close>

fun is_relay :: "inbound \<Rightarrow> bool" where
  "is_relay (CreateSession u p) = False"
| "is_relay e = True"

text \<open>
  The binding invariant in the words of the specification: a connection is joined
  when it has sent a join event and has not disconnected since. \<open>joined b c es\<close>
  reads the trace \<open>es\<close> from left to right, starting from \<open>b\<close>.
\<close>

fun joined :: "bool \<Rightarrow> sid \<Rightarrow> inbound list \<Rightarrow> bool" where
  "joined b c [] = b"
| "joined b c (JoinSession c' data # es) = joined (if c' = c then True else b) c es"
| "joined b c (Disconnect c' # es) = joined (if c' = c then False else b) c es"
| "joined b c (e # es) = joined b c es"

section \<open>Default substitution\<close>

lemma dict_get_default_absent: "data k = None \<Longrightarrow> dict_get_default data k d = d"
  by (simp add: dict_get_default_def)

text \<open>
  C7: an \<^verbatim>\<open>end_game\<close> or \<^verbatim>\<open>score_update\<close> event without \<^verbatim>\<open>score\<close> (without
  \<^verbatim>\<open>coins\<close>) is broadcast with 0 in the place of the missing field, the other field
  is forwarded as it came, and with neither field the payload is
  \<^verbatim>\<open>{score: 0, coins: 0}\<close>.
\<close>

theorem missing_score_coins_default_zero:
  fixes data :: message
  shows "(data ''score'' = None \<longrightarrow>
            (\<exists>st' em. handle_end c data st = Inr (st', [em]) \<and> event em = ''game_ended'' \<and>
               map_of (payload em) ''score'' = Some (JInt 0) \<and>
               map_of (payload em) ''coins'' = Some (dict_get_default data ''coins'' (JInt 0))) \<and>
            (\<exists>st' em. handle_score c data st = Inr (st', [em]) \<and> event em = ''score_update'' \<and>
               map_of (payload em) ''score'' = Some (JInt 0) \<and>
               map_of (payload em) ''coins'' = Some (dict_get_default data ''coins'' (JInt 0))))
       \<and> (data ''coins'' = None \<longrightarrow>
            (\<exists>st' em. handle_end c data st = Inr (st', [em]) \<and> event em = ''game_ended'' \<and>
               map_of (payload em) ''coins'' = Some (JInt 0) \<and>
               map_of (payload em) ''score'' = Some (dict_get_default data ''score'' (JInt 0))) \<and>
            (\<exists>st' em. handle_score c data st = Inr (st', [em]) \<and> event em = ''score_update'' \<and>
               map_of (payload em) ''coins'' = Some (JInt 0) \<and>
               map_of (payload em) ''score'' = Some (dict_get_default data ''score'' (JInt 0))))
       \<and> (data ''score'' = None \<and> data ''coins'' = None \<longrightarrow>
            handle_end c data st =
              Inr (st, [\<lparr>event = ''game_ended'', payload = [(''score'', JInt 0), (''coins'', JInt 0)],
                         room = dict_get data ''sessionId'', include_self = True\<rparr>]) \<and>
            handle_score c data st =
              Inr (st, [\<lparr>event = ''score_update'', payload = [(''score'', JInt 0), (''coins'', JInt 0)],
                         room = dict_get data ''sessionId'', include_self = False\<rparr>]))"
  by (simp add: handle_end_def handle_score_def dict_get_default_absent)

theorem missing_score_coins_default_zero_witness:
  "[''sessionId'' \<mapsto> JStr ''ab12cd34''] ''score'' = None
   \<and> [''sessionId'' \<mapsto> JStr ''ab12cd34''] ''coins'' = None
   \<and> handle_end ''c1'' [''sessionId'' \<mapsto> JStr ''ab12cd34''] init_state =
     Inr (init_state, [\<lparr>event = ''game_ended'', payload = [(''score'', JInt 0), (''coins'', JInt 0)],
                         room = JStr ''ab12cd34'', include_self = True\<rparr>])
   \<and> handle_score ''c1'' [''sessionId'' \<mapsto> JStr ''ab12cd34''] init_state =
     Inr (init_state, [\<lparr>event = ''score_update'', payload = [(''score'', JInt 0), (''coins'', JInt 0)],
                         room = JStr ''ab12cd34'', include_self = False\<rparr>])"
  using missing_score_coins_default_zero
          [of "[''sessionId'' \<mapsto> JStr ''ab12cd34'']" "''c1''" init_state]
  by (simp add: dict_get_def)

section \<open>Joining\<close>

text \<open>
  C10: a join with role \<^verbatim>\<open>controller\<close> and no \<^verbatim>\<open>name\<close> field broadcasts
  \<^verbatim>\<open>player_joined\<close> with the name \<^verbatim>\<open>Player\<close>.
\<close>

theorem controller_join_default_name:
  assumes "data ''role'' = Some (JStr ''controller'')" and "data ''name'' = None"
  shows "\<exists>st'. handle_join c data st =
           Inr (st', [\<lparr>event = ''player_joined'', payload = [(''name'', JStr ''Player'')],
                       room = dict_get data ''sessionId'', include_self = True\<rparr>])"
  using assms by (simp add: handle_join_def dict_get_def dict_get_default_def Let_def)

theorem controller_join_default_name_witness:
  "[''sessionId'' \<mapsto> JStr ''ab12cd34'', ''role'' \<mapsto> JStr ''controller''] ''role''
      = Some (JStr ''controller'')
   \<and> [''sessionId'' \<mapsto> JStr ''ab12cd34'', ''role'' \<mapsto> JStr ''controller''] ''name'' = None
   \<and> (\<exists>st'. handle_join ''c2''
          [''sessionId'' \<mapsto> JStr ''ab12cd34'', ''role'' \<mapsto> JStr ''controller''] init_state =
          Inr (st', [\<lparr>event = ''player_joined'', payload = [(''name'', JStr ''Player'')],
                      room = JStr ''ab12cd34'', include_self = True\<rparr>]))"
  using controller_join_default_name
          [of "[''sessionId'' \<mapsto> JStr ''ab12cd34'', ''role'' \<mapsto> JStr ''controller'']"
              "''c2''" init_state]
  by (simp add: dict_get_def)

text \<open>
  C4: a join always records the binding \<^verbatim>\<open>{sessionId, role}\<close> of the payload for the
  sender and puts the sender into the room, whatever the session table holds (the handler
  never reads it) and without raising. With role \<^verbatim>\<open>controller\<close> it broadcasts
  \<^verbatim>\<open>player_joined{name}\<close> to the room, with the name the payload carries (\<^verbatim>\<open>Player\<close>
  when it carries none); with role \<^verbatim>\<open>desktop\<close> it broadcasts
  \<^verbatim>\<open>desktop_ready{sessionId}\<close>; both with the sender among the recipients. With any
  other role it broadcasts nothing. The fields are read off the payload itself: an
  absent \<^verbatim>\<open>sessionId\<close> or \<^verbatim>\<open>role\<close> is \<^verbatim>\<open>None\<close>.
\<close>

theorem join_broadcast_by_role:
  fixes data :: message and c :: sid and st :: state
  defines "s \<equiv> (case data ''sessionId'' of None \<Rightarrow> JNull | Some v \<Rightarrow> v)"
  defines "r \<equiv> (case data ''role'' of None \<Rightarrow> JNull | Some v \<Rightarrow> v)"
  defines "st' \<equiv> st\<lparr>rooms := (rooms st)(s := insert c (rooms st s)),
                     socket_map := (socket_map st)(c \<mapsto> \<lparr>sessionId = s, role = r\<rparr>)\<rparr>"
  defines "ready_em \<equiv> \<lparr>event = ''desktop_ready'', payload = [(''sessionId'', s)],
                         room = s, include_self = True\<rparr>"
  shows "(r = JStr ''controller'' \<longrightarrow>
            (\<forall>n. data ''name'' = Some n \<longrightarrow>
               handle_join c data st =
                 Inr (st', [\<lparr>event = ''player_joined'', payload = [(''name'', n)],
                             room = s, include_self = True\<rparr>])) \<and>
            (data ''name'' = None \<longrightarrow>
               handle_join c data st =
                 Inr (st', [\<lparr>event = ''player_joined'', payload = [(''name'', JStr ''Player'')],
                             room = s, include_self = True\<rparr>])) \<and>
            (\<exists>em. handle_join c data st = Inr (st', [em]) \<and> event em = ''player_joined'' \<and>
                  room em = s \<and> include_self em \<and> c \<in> recipients st' c em \<and>
                  recipients st' c em = insert c (rooms st s)))
       \<and> (r = JStr ''desktop'' \<longrightarrow>
            handle_join c data st = Inr (st', [ready_em]) \<and> c \<in> recipients st' c ready_em \<and>
            recipients st' c ready_em = insert c (rooms st s))
       \<and> (r \<noteq> JStr ''controller'' \<and> r \<noteq> JStr ''desktop'' \<longrightarrow>
            handle_join c data st = Inr (st', []))
       \<and> socket_map st' c = Some \<lparr>sessionId = s, role = r\<rparr>
       \<and> sessions st' = sessions st
       \<and> (\<exists>ems. handle_join c data st = Inr (st', ems)
                 \<and> handle_join c data (st\<lparr>sessions := tbl\<rparr>) = Inr (st'\<lparr>sessions := tbl\<rparr>, ems))"
proof -
  have get_s: "dict_get data ''sessionId'' = s" and get_r: "dict_get data ''role'' = r"
    by (simp_all add: dict_get_def s_def r_def)
  have name_some: "dict_get_default data ''name'' (JStr ''Player'') = n" if "data ''name'' = Some n" for n
    using that by (simp add: dict_get_default_def)
  have name_none: "dict_get_default data ''name'' (JStr ''Player'') = JStr ''Player''"
    if "data ''name'' = None"
    using that by (simp add: dict_get_default_def)
  show ?thesis
    unfolding st'_def ready_em_def
    by (simp add: handle_join_def join_room_def recipients_def Let_def get_s get_r
          name_some name_none)
qed

theorem join_broadcast_by_role_witness:
  "[''sessionId'' \<mapsto> JStr ''ab12cd34'', ''role'' \<mapsto> JStr ''controller'', ''name'' \<mapsto> JStr ''Ana'']
      ''name'' = Some (JStr ''Ana'')
   \<and> handle_join ''c2''
       [''sessionId'' \<mapsto> JStr ''ab12cd34'', ''role'' \<mapsto> JStr ''controller'', ''name'' \<mapsto> JStr ''Ana'']
       init_state =
       Inr (init_state\<lparr>rooms := (rooms init_state)(JStr ''ab12cd34'' := {''c2''}),
                       socket_map := [''c2'' \<mapsto> \<lparr>sessionId = JStr ''ab12cd34'', role = JStr ''controller''\<rparr>]\<rparr>,
            [\<lparr>event = ''player_joined'', payload = [(''name'', JStr ''Ana'')],
              room = JStr ''ab12cd34'', include_self = True\<rparr>])
   \<and> sessions init_state ''nosuch'' = None
   \<and> handle_join ''c1'' [''sessionId'' \<mapsto> JStr ''nosuch'', ''role'' \<mapsto> JStr ''desktop''] init_state =
       Inr (init_state\<lparr>rooms := (rooms init_state)(JStr ''nosuch'' := {''c1''}),
                       socket_map := [''c1'' \<mapsto> \<lparr>sessionId = JStr ''nosuch'', role = JStr ''desktop''\<rparr>]\<rparr>,
            [\<lparr>event = ''desktop_ready'', payload = [(''sessionId'', JStr ''nosuch'')],
              room = JStr ''nosuch'', include_self = True\<rparr>])
   \<and> handle_join ''c3'' [''sessionId'' \<mapsto> JStr ''ab12cd34'', ''role'' \<mapsto> JStr ''viewer''] init_state =
       Inr (init_state\<lparr>rooms := (rooms init_state)(JStr ''ab12cd34'' := {''c3''}),
                       socket_map := [''c3'' \<mapsto> \<lparr>sessionId = JStr ''ab12cd34'', role = JStr ''viewer''\<rparr>]\<rparr>,
            [])"
  using join_broadcast_by_role
          [of "[''sessionId'' \<mapsto> JStr ''ab12cd34'', ''role'' \<mapsto> JStr ''controller'', ''name'' \<mapsto> JStr ''Ana'']"
              "''c2''" init_state]
        join_broadcast_by_role
          [of "[''sessionId'' \<mapsto> JStr ''nosuch'', ''role'' \<mapsto> JStr ''desktop'']" "''c1''" init_state]
        join_broadcast_by_role
          [of "[''sessionId'' \<mapsto> JStr ''ab12cd34'', ''role'' \<mapsto> JStr ''viewer'']" "''c3''" init_state]
  by (simp add: init_state_def)

section \<open>Fan-out of the game events\<close>

text \<open>
  C2: for an event that carries a \<^verbatim>\<open>sessionId\<close>, the broadcast goes to the room of
  that identifier; \<^verbatim>\<open>control\<close>, \<^verbatim>\<open>score_update\<close> and \<^verbatim>\<open>restart_game\<close> are emitted
  with \<^verbatim>\<open>include_self=False\<close>, so the sender is not among the recipients, while
  \<^verbatim>\<open>game_started\<close> and \<^verbatim>\<open>game_ended\<close> reach the whole room; the \<^verbatim>\<open>direction\<close> of
  a control event is forwarded as it came.
\<close>

theorem fan_out_sender_rule:
  fixes data :: message and c :: sid and st :: state and s :: jval
  assumes sid: "data ''sessionId'' = Some s"
  shows "(\<forall>d. data ''direction'' = Some d \<longrightarrow>
            (\<exists>em. handle_control c data st = Inr (st, [em]) \<and> event em = ''control'' \<and>
                  payload em = [(''direction'', d)] \<and> room em = s \<and> \<not> include_self em \<and>
                  recipients st c em = rooms st s - {c} \<and> c \<notin> recipients st c em))
       \<and> (\<exists>em. handle_score c data st = Inr (st, [em]) \<and> event em = ''score_update'' \<and>
                 room em = s \<and> \<not> include_self em \<and>
                 recipients st c em = rooms st s - {c} \<and> c \<notin> recipients st c em)
       \<and> (\<exists>em. handle_restart c data st = Inr (st, [em]) \<and> event em = ''restart_game'' \<and>
                 room em = s \<and> \<not> include_self em \<and>
                 recipients st c em = rooms st s - {c} \<and> c \<notin> recipients st c em)
       \<and> (\<exists>em. handle_start c data st = Inr (st, [em]) \<and> event em = ''game_started'' \<and>
                 room em = s \<and> include_self em \<and>
                 recipients st c em = rooms st s \<and> (c \<in> rooms st s \<longrightarrow> c \<in> recipients st c em))
       \<and> (\<exists>em. handle_end c data st = Inr (st, [em]) \<and> event em = ''game_ended'' \<and>
                 room em = s \<and> include_self em \<and>
                 recipients st c em = rooms st s \<and> (c \<in> rooms st s \<longrightarrow> c \<in> recipients st c em))"
  using sid
  by (simp add: handle_control_def handle_score_def handle_restart_def handle_start_def
      handle_end_def dict_get_def dict_getitem_def recipients_def)

theorem fan_out_sender_rule_witness:
  "[''sessionId'' \<mapsto> JStr ''ab12cd34'', ''direction'' \<mapsto> JStr ''left''] ''sessionId''
      = Some (JStr ''ab12cd34'')
   \<and> handle_control ''c2'' [''sessionId'' \<mapsto> JStr ''ab12cd34'', ''direction'' \<mapsto> JStr ''left'']
         (init_state\<lparr>rooms := (\<lambda>r. if r = JStr ''ab12cd34'' then {''c1'', ''c2''} else {})\<rparr>) =
       Inr (init_state\<lparr>rooms := (\<lambda>r. if r = JStr ''ab12cd34'' then {''c1'', ''c2''} else {})\<rparr>,
            [\<lparr>event = ''control'', payload = [(''direction'', JStr ''left'')],
              room = JStr ''ab12cd34'', include_self = False\<rparr>])
   \<and> recipients (init_state\<lparr>rooms := (\<lambda>r. if r = JStr ''ab12cd34'' then {''c1'', ''c2''} else {})\<rparr>)
         ''c2'' \<lparr>event = ''control'', payload = [(''direction'', JStr ''left'')],
                 room = JStr ''ab12cd34'', include_self = False\<rparr> = {''c1''}"
  using fan_out_sender_rule
          [of "[''sessionId'' \<mapsto> JStr ''ab12cd34'', ''direction'' \<mapsto> JStr ''left'']"
              "JStr ''ab12cd34''" "''c2''"
              "init_state\<lparr>rooms := (\<lambda>r. if r = JStr ''ab12cd34'' then {''c1'', ''c2''} else {})\<rparr>"]
  by (auto simp add: handle_control_def dict_get_def dict_getitem_def recipients_def)

section \<open>Disconnect\<close>

text \<open>
  C3: a disconnect deletes the binding of the connection and leaves every other binding
  alone. When the deleted binding had the role \<^verbatim>\<open>controller\<close>, one
  \<^verbatim>\<open>controller_disconnected{}\<close> goes to the room of its session; when it had the role
  \<^verbatim>\<open>desktop\<close>, or when there was no binding, nothing is broadcast. No case raises, and
  a further disconnect of the same connection finds nothing to delete and broadcasts
  nothing.
\<close>

theorem disconnect_removes_binding:
  fixes c :: sid and st :: state
  defines "st' \<equiv> st\<lparr>socket_map := (socket_map st)(c := None)\<rparr>"
  shows "(socket_map st c = None \<longrightarrow> handle_disconnect c st = Inr (st', []))
       \<and> (\<forall>b. socket_map st c = Some b \<and> role b = JStr ''controller'' \<longrightarrow>
              handle_disconnect c st =
                Inr (st', [\<lparr>event = ''controller_disconnected'', payload = [],
                            room = sessionId b, include_self = True\<rparr>]))
       \<and> (\<forall>b. socket_map st c = Some b \<and> role b = JStr ''desktop'' \<longrightarrow>
              handle_disconnect c st = Inr (st', []))
       \<and> (\<exists>ems. handle_disconnect c st = Inr (st', ems) \<and> length ems \<le> 1)
       \<and> socket_map st' c = None
       \<and> (\<forall>c'. c' \<noteq> c \<longrightarrow> socket_map st' c' = socket_map st c')
       \<and> sessions st' = sessions st
       \<and> handle_disconnect c st' = Inr (st', [])"
  unfolding st'_def
  by (auto simp add: handle_disconnect_def Let_def split: option.splits)

theorem disconnect_removes_binding_witness:
  "socket_map (init_state\<lparr>socket_map :=
       [''c2'' \<mapsto> \<lparr>sessionId = JStr ''ab12cd34'', role = JStr ''controller''\<rparr>]\<rparr>) ''c2''
     = Some \<lparr>sessionId = JStr ''ab12cd34'', role = JStr ''controller''\<rparr>
   \<and> handle_disconnect ''c2'' (init_state\<lparr>socket_map :=
       [''c2'' \<mapsto> \<lparr>sessionId = JStr ''ab12cd34'', role = JStr ''controller''\<rparr>]\<rparr>)
     = Inr (init_state, [\<lparr>event = ''controller_disconnected'', payload = [],
                           room = JStr ''ab12cd34'', include_self = True\<rparr>])
   \<and> socket_map init_state ''c1'' = None
   \<and> handle_disconnect ''c1'' init_state = Inr (init_state, [])"
  using disconnect_removes_binding
          [of "init_state\<lparr>socket_map :=
                 [''c2'' \<mapsto> \<lparr>sessionId = JStr ''ab12cd34'', role = JStr ''controller''\<rparr>]\<rparr>" "''c2''"]
        disconnect_removes_binding [of init_state "''c1''"]
  by (simp add: init_state_def)

section \<open>Session creation\<close>

lemma create_session_response:
  "p \<noteq> SocketFailed \<Longrightarrow>
     \<exists>st'. create_session u p st =
       Inr (st', \<lparr>resp_sessionId = take 8 u,
                  ip = (case p of Connected a \<Rightarrow> a | _ \<Rightarrow> ''127.0.0.1''), port = 5173\<rparr>)"
  by (cases p) (simp_all add: create_session_def get_local_ip_def Let_def)

lemma create_session_socket_failed:
  "create_session u SocketFailed st = Inl OSError"
  by (simp add: create_session_def get_local_ip_def Let_def)

text \<open>
  C5: a response, when there is one, carries the first eight characters of the UUID as
  \<^verbatim>\<open>sessionId\<close>, the port 5173, and as \<^verbatim>\<open>ip\<close> the discovered address, or
  \<^verbatim>\<open>127.0.0.1\<close> when the lookup raised inside the \<^verbatim>\<open>try\<close>. But creation does not
  always succeed: the socket is created before the \<^verbatim>\<open>try\<close>, and when that call
  raises, \<^verbatim>\<open>OSError\<close> leaves \<^verbatim>\<open>get_local_ip\<close> and \<^verbatim>\<open>create_session\<close> and no
  session is stored.
\<close>

theorem create_session_socket_error_raises:
  "get_local_ip SocketFailed = Inl OSError
   \<and> create_session ''ab12cd34-5e6f-4a7b-8c9d-0e1f2a3b4c5d'' SocketFailed init_state = Inl OSError
   \<and> run init_state [CreateSession ''ab12cd34-5e6f-4a7b-8c9d-0e1f2a3b4c5d'' SocketFailed] = init_state
   \<and> create_session ''ab12cd34-5e6f-4a7b-8c9d-0e1f2a3b4c5d'' Raised init_state =
       Inr (init_state\<lparr>sessions := [''ab12cd34'' \<mapsto> \<lparr>players = [], status = ''waiting''\<rparr>]\<rparr>,
            \<lparr>resp_sessionId = ''ab12cd34'', ip = ''127.0.0.1'', port = 5173\<rparr>)"
  by (simp add: create_session_def get_local_ip_def Let_def init_state_def)

section \<open>A control event without direction\<close>

lemma handle_control_without_direction:
  "data ''direction'' = None \<Longrightarrow> handle_control c data st = Inl (KeyError ''direction'')"
  by (simp add: handle_control_def dict_getitem_def)

text \<open>
  C1: the handler reads \<^verbatim>\<open>data['direction']\<close>, so a control event without that field
  raises \<^verbatim>\<open>KeyError\<close> out of the handler: nothing is broadcast, but an error is raised,
  with a \<^verbatim>\<open>sessionId\<close> and without one.
\<close>

theorem control_without_direction_raises:
  "handle_control ''c2'' [''sessionId'' \<mapsto> JStr ''ab12cd34''] init_state = Inl (KeyError ''direction'')
   \<and> handle_control ''c2'' Map.empty init_state = Inl (KeyError ''direction'')"
  by (simp add: handle_control_def dict_getitem_def)

section \<open>The session table\<close>

text \<open>
  C6, as the code has it: a creation that returns stores the record
  \<^verbatim>\<open>{'players': [], 'status': 'waiting'}\<close> under the generated identifier and leaves
  the records under every other key, and the bindings, as they were. The store is
  unconditional: the identifier is new, and no live record is written over, when the
  first eight characters of the UUID differ from the identifiers of the live sessions.
\<close>

theorem create_session_stores_record:
  fixes u :: string and p :: probe and st :: state
  defines "k \<equiv> take 8 u"
  defines "st' \<equiv> st\<lparr>sessions := (sessions st)(k \<mapsto> \<lparr>players = [], status = ''waiting''\<rparr>)\<rparr>"
  shows "(p \<noteq> SocketFailed \<longrightarrow> (\<exists>r. create_session u p st = Inr (st', r) \<and> resp_sessionId r = k))
       \<and> (\<forall>s1 r. create_session u p st = Inr (s1, r) \<longrightarrow> s1 = st' \<and> resp_sessionId r = k)
       \<and> sessions st' k = Some \<lparr>players = [], status = ''waiting''\<rparr>
       \<and> (\<forall>k'. k' \<noteq> k \<longrightarrow> sessions st' k' = sessions st k')
       \<and> socket_map st' = socket_map st
       \<and> (k \<notin> dom (sessions st) \<longrightarrow>
            dom (sessions st') = insert k (dom (sessions st)) \<and>
            (\<forall>k' \<in> dom (sessions st). sessions st' k' = sessions st k'))"
  unfolding k_def st'_def
  by (cases p) (auto simp add: create_session_def get_local_ip_def Let_def)

theorem create_session_stores_record_witness:
  "''cd34ab12'' \<notin> dom (sessions (run init_state
       [CreateSession ''ab12cd34-0000-4000-8000-000000000000'' Raised]))
   \<and> Raised \<noteq> SocketFailed
   \<and> (\<exists>st'. create_session ''cd34ab12-1111-4111-8111-111111111111'' Raised
          (run init_state [CreateSession ''ab12cd34-0000-4000-8000-000000000000'' Raised]) =
          Inr (st', \<lparr>resp_sessionId = ''cd34ab12'', ip = ''127.0.0.1'', port = 5173\<rparr>)
        \<and> sessions st' ''cd34ab12'' = Some \<lparr>players = [], status = ''waiting''\<rparr>
        \<and> sessions st' ''ab12cd34'' = Some \<lparr>players = [], status = ''waiting''\<rparr>
        \<and> dom (sessions st') = {''cd34ab12'', ''ab12cd34''})"
  using create_session_stores_record
          [where u = "''cd34ab12-1111-4111-8111-111111111111''" and p = Raised
             and st = "run init_state [CreateSession ''ab12cd34-0000-4000-8000-000000000000'' Raised]"]
  by (auto simp add: create_session_def Let_def init_state_def get_local_ip_def)

text \<open>
  C6 as stated fails: two UUIDs with the same first eight characters give the same
  identifier, and the second creation returns the identifier of a live session.
\<close>

theorem create_session_id_collision:
  "sessions (run init_state [CreateSession ''ab12cd34-0000-4000-8000-000000000000'' Raised])
      ''ab12cd34'' = Some \<lparr>players = [], status = ''waiting''\<rparr>
   \<and> create_session ''ab12cd34-1111-4111-8111-111111111111'' Raised
         (run init_state [CreateSession ''ab12cd34-0000-4000-8000-000000000000'' Raised]) =
       Inr (run init_state [CreateSession ''ab12cd34-0000-4000-8000-000000000000'' Raised],
            \<lparr>resp_sessionId = ''ab12cd34'', ip = ''127.0.0.1'', port = 5173\<rparr>)"
  by (simp add: create_session_def Let_def init_state_def get_local_ip_def)

section \<open>Invariants along a trace\<close>

lemma dispatch_socket_map:
  "socket_map (fst (dispatch e st)) =
     (case e of
        JoinSession c data \<Rightarrow>
          (socket_map st)(c \<mapsto> \<lparr>sessionId = dict_get data ''sessionId'', role = dict_get data ''role''\<rparr>)
      | Disconnect c \<Rightarrow> (socket_map st)(c := None)
      | _ \<Rightarrow> socket_map st)"
  by (cases e)
     (simp_all add: settle_def create_session_def get_local_ip_def handle_join_def join_room_def
        handle_control_def handle_start_def handle_end_def handle_score_def
        handle_restart_def handle_disconnect_def Let_def
        split: sum.splits option.splits probe.splits)

lemma dispatch_sessions:
  "sessions (fst (dispatch e st)) =
     (case e of
        CreateSession u p \<Rightarrow>
          (if p = SocketFailed then sessions st
           else (sessions st)(take 8 u \<mapsto> \<lparr>players = [], status = ''waiting''\<rparr>))
      | _ \<Rightarrow> sessions st)"
  by (cases e)
     (simp_all add: settle_def create_session_def get_local_ip_def handle_join_def join_room_def
        handle_control_def handle_start_def handle_end_def handle_score_def
        handle_restart_def handle_disconnect_def Let_def
        split: sum.splits option.splits probe.splits)

lemma run_append: "run st (es1 @ es2) = run (run st es1) es2"
  by (induction es1 arbitrary: st) simp_all

lemma bound_iff_joined_from:
  "(socket_map (run st es) c \<noteq> None) = joined (socket_map st c \<noteq> None) c es"
proof (induction es arbitrary: st)
  case Nil
  show ?case by simp
next
  case (Cons e es)
  have "joined (socket_map st c \<noteq> None) c (e # es) =
        joined (socket_map (fst (dispatch e st)) c \<noteq> None) c es"
    by (cases e) (simp_all add: dispatch_socket_map del: dispatch.simps)
  with Cons.IH [of "fst (dispatch e st)"] show ?case by simp
qed

lemma run_sessions_relay: "list_all is_relay es \<Longrightarrow> sessions (run st es) = sessions st"
proof (induction es arbitrary: st)
  case Nil
  show ?case by simp
next
  case (Cons e es)
  then have "is_relay e" and rest: "list_all is_relay es" by simp_all
  then have "sessions (fst (dispatch e st)) = sessions st"
    by (cases e) (simp_all add: dispatch_sessions del: dispatch.simps)
  with Cons.IH [OF rest, of "fst (dispatch e st)"] show ?case by simp
qed

lemma run_sessions_kept:
  assumes "\<forall>k r. sessions st k = Some r \<longrightarrow> r = \<lparr>players = [], status = ''waiting''\<rparr>"
  shows "(\<forall>k r. sessions (run st es) k = Some r \<longrightarrow> r = \<lparr>players = [], status = ''waiting''\<rparr>)
         \<and> (\<forall>k r. sessions st k = Some r \<longrightarrow> sessions (run st es) k = Some r)"
  using assms
proof (induction es arbitrary: st)
  case Nil
  then show ?case by simp
next
  case (Cons e es)
  let ?st1 = "fst (dispatch e st)"
  have inv1: "\<forall>k r. sessions ?st1 k = Some r \<longrightarrow> r = \<lparr>players = [], status = ''waiting''\<rparr>"
    using Cons.prems by (cases e) (simp_all add: dispatch_sessions del: dispatch.simps)
  have keep1: "\<forall>k r. sessions st k = Some r \<longrightarrow> sessions ?st1 k = Some r"
    using Cons.prems by (cases e) (simp_all add: dispatch_sessions del: dispatch.simps)
  from Cons.IH [OF inv1] keep1 show ?case by simp
qed

text \<open>
  C8: the binding table is a dictionary keyed by the connection identifier, so a
  connection has at most one binding. After any trace of events from the start, a
  connection has a binding exactly when it has joined and not disconnected since; a join
  stores the binding of its own payload, so of two joins by one connection the second
  wins, and neither raises.
\<close>

theorem binding_iff_joined:
  "(socket_map (run init_state es) c \<noteq> None) = joined False c es
   \<and> (socket_map (run st es) c \<noteq> None) = joined (socket_map st c \<noteq> None) c es
   \<and> card {b. socket_map (run init_state es) c = Some b} \<le> 1
   \<and> (\<exists>st1 ems1 st2 ems2.
         handle_join c d1 st = Inr (st1, ems1) \<and> handle_join c d2 st1 = Inr (st2, ems2) \<and>
         socket_map st1 = (socket_map st)(c \<mapsto>
           \<lparr>sessionId = dict_get d1 ''sessionId'', role = dict_get d1 ''role''\<rparr>) \<and>
         socket_map st2 = (socket_map st)(c \<mapsto>
           \<lparr>sessionId = dict_get d2 ''sessionId'', role = dict_get d2 ''role''\<rparr>))"
proof -
  have a: "(socket_map (run st es) c \<noteq> None) = joined (socket_map st c \<noteq> None) c es" for st
    by (rule bound_iff_joined_from)
  have b: "(socket_map (run init_state es) c \<noteq> None) = joined False c es"
    using a [of init_state] by (simp add: init_state_def)
  have "{b. socket_map (run init_state es) c = Some b} = {}
        \<or> (\<exists>x. {b. socket_map (run init_state es) c = Some b} = {x})"
    by (cases "socket_map (run init_state es) c") auto
  then have c: "card {b. socket_map (run init_state es) c = Some b} \<le> 1"
    by auto
  have d: "\<exists>st1 ems1 st2 ems2.
         handle_join c d1 st = Inr (st1, ems1) \<and> handle_join c d2 st1 = Inr (st2, ems2) \<and>
         socket_map st1 = (socket_map st)(c \<mapsto>
           \<lparr>sessionId = dict_get d1 ''sessionId'', role = dict_get d1 ''role''\<rparr>) \<and>
         socket_map st2 = (socket_map st)(c \<mapsto>
           \<lparr>sessionId = dict_get d2 ''sessionId'', role = dict_get d2 ''role''\<rparr>)"
    by (simp add: handle_join_def join_room_def Let_def)
  from a b c d show ?thesis by blast
qed

theorem binding_iff_joined_witness:
  "joined False ''c2''
     [JoinSession ''c2'' [''sessionId'' \<mapsto> JStr ''ab12cd34'', ''role'' \<mapsto> JStr ''controller''],
      Control ''c2'' [''sessionId'' \<mapsto> JStr ''ab12cd34''],
      JoinSession ''c2'' [''sessionId'' \<mapsto> JStr ''ef56ab78'', ''role'' \<mapsto> JStr ''desktop'']]
   \<and> socket_map (run init_state
     [JoinSession ''c2'' [''sessionId'' \<mapsto> JStr ''ab12cd34'', ''role'' \<mapsto> JStr ''controller''],
      Control ''c2'' [''sessionId'' \<mapsto> JStr ''ab12cd34''],
      JoinSession ''c2'' [''sessionId'' \<mapsto> JStr ''ef56ab78'', ''role'' \<mapsto> JStr ''desktop'']]) ''c2''
     = Some \<lparr>sessionId = JStr ''ef56ab78'', role = JStr ''desktop''\<rparr>
   \<and> \<not> joined False ''c2''
     [JoinSession ''c2'' [''sessionId'' \<mapsto> JStr ''ab12cd34'', ''role'' \<mapsto> JStr ''controller''],
      Disconnect ''c2'']
   \<and> socket_map (run init_state
     [JoinSession ''c2'' [''sessionId'' \<mapsto> JStr ''ab12cd34'', ''role'' \<mapsto> JStr ''controller''],
      Disconnect ''c2'']) ''c2'' = None"
  using binding_iff_joined
          [of "[JoinSession ''c2'' [''sessionId'' \<mapsto> JStr ''ab12cd34'', ''role'' \<mapsto> JStr ''controller''],
                Disconnect ''c2'']" "''c2''" init_state Map.empty Map.empty]
        binding_iff_joined
          [of "[JoinSession ''c2'' [''sessionId'' \<mapsto> JStr ''ab12cd34'', ''role'' \<mapsto> JStr ''controller''],
                Control ''c2'' [''sessionId'' \<mapsto> JStr ''ab12cd34''],
                JoinSession ''c2'' [''sessionId'' \<mapsto> JStr ''ef56ab78'', ''role'' \<mapsto> JStr ''desktop'']]"
              "''c2''" init_state Map.empty Map.empty]
  by (simp add: settle_def handle_join_def handle_control_def handle_disconnect_def
        join_room_def dict_get_def dict_getitem_def init_state_def Let_def)

text \<open>
  C9: no handler of the relay engine writes the session table, so a trace of relay
  events leaves it as it was. Only a creation writes it, and it writes the record
  \<^verbatim>\<open>{'players': [], 'status': 'waiting'}\<close>: once a session is in the table, after any
  further events (creations among them) it is still there with the same record, its
  players list empty and its status \<^verbatim>\<open>waiting\<close>.
\<close>

theorem relay_keeps_sessions:
  "(list_all is_relay es \<longrightarrow> sessions (run st es) = sessions st)
   \<and> (\<forall>st' ems. handle_join c data st = Inr (st', ems) \<longrightarrow> sessions st' = sessions st)
   \<and> (\<forall>st' ems. handle_control c data st = Inr (st', ems) \<longrightarrow> sessions st' = sessions st)
   \<and> (\<forall>st' ems. handle_start c data st = Inr (st', ems) \<longrightarrow> sessions st' = sessions st)
   \<and> (\<forall>st' ems. handle_end c data st = Inr (st', ems) \<longrightarrow> sessions st' = sessions st)
   \<and> (\<forall>st' ems. handle_score c data st = Inr (st', ems) \<longrightarrow> sessions st' = sessions st)
   \<and> (\<forall>st' ems. handle_restart c data st = Inr (st', ems) \<longrightarrow> sessions st' = sessions st)
   \<and> (\<forall>st' ems. handle_disconnect c st = Inr (st', ems) \<longrightarrow> sessions st' = sessions st)
   \<and> (\<forall>k r. sessions (run init_state es1) k = Some r \<longrightarrow>
          sessions (run init_state (es1 @ es2)) k = Some r \<and> players r = [] \<and> status r = ''waiting'')"
proof -
  have relay: "list_all is_relay es \<longrightarrow> sessions (run st es) = sessions st"
    by (simp add: run_sessions_relay)
  have handlers:
    "\<forall>st' ems. handle_join c data st = Inr (st', ems) \<longrightarrow> sessions st' = sessions st"
    "\<forall>st' ems. handle_control c data st = Inr (st', ems) \<longrightarrow> sessions st' = sessions st"
    "\<forall>st' ems. handle_start c data st = Inr (st', ems) \<longrightarrow> sessions st' = sessions st"
    "\<forall>st' ems. handle_end c data st = Inr (st', ems) \<longrightarrow> sessions st' = sessions st"
    "\<forall>st' ems. handle_score c data st = Inr (st', ems) \<longrightarrow> sessions st' = sessions st"
    "\<forall>st' ems. handle_restart c data st = Inr (st', ems) \<longrightarrow> sessions st' = sessions st"
    "\<forall>st' ems. handle_disconnect c st = Inr (st', ems) \<longrightarrow> sessions st' = sessions st"
    by (auto simp add: handle_join_def join_room_def handle_control_def handle_start_def
          handle_end_def handle_score_def handle_restart_def handle_disconnect_def Let_def
          split: sum.splits option.splits if_splits)
  have start: "\<forall>k r. sessions init_state k = Some r \<longrightarrow> r = \<lparr>players = [], status = ''waiting''\<rparr>"
    by (simp add: init_state_def)
  have inv: "\<forall>k r. sessions (run init_state es1) k = Some r \<longrightarrow>
               r = \<lparr>players = [], status = ''waiting''\<rparr>"
    using run_sessions_kept [OF start, of es1] by blast
  have kept: "\<forall>k r. sessions (run init_state es1) k = Some r \<longrightarrow>
               sessions (run (run init_state es1) es2) k = Some r"
    using run_sessions_kept [OF inv, of es2] by blast
  have later: "\<forall>k r. sessions (run init_state es1) k = Some r \<longrightarrow>
          sessions (run init_state (es1 @ es2)) k = Some r \<and> players r = [] \<and> status r = ''waiting''"
  proof (intro allI impI)
    fix k r
    assume h: "sessions (run init_state es1) k = Some r"
    from inv h have "r = \<lparr>players = [], status = ''waiting''\<rparr>" by blast
    moreover from kept h have "sessions (run init_state (es1 @ es2)) k = Some r"
      by (simp add: run_append)
    ultimately show "sessions (run init_state (es1 @ es2)) k = Some r \<and> players r = [] \<and>
        status r = ''waiting''"
      by simp
  qed
  from relay handlers later show ?thesis by blast
qed

theorem relay_keeps_sessions_witness:
  "list_all is_relay
     [JoinSession ''c2'' [''sessionId'' \<mapsto> JStr ''ab12cd34'', ''role'' \<mapsto> JStr ''controller''],
      Control ''c2'' [''sessionId'' \<mapsto> JStr ''ab12cd34'', ''direction'' \<mapsto> JStr ''up''],
      Disconnect ''c2'']
   \<and> sessions (run init_state [CreateSession ''ab12cd34-0000-4000-8000-000000000000'' Raised])
         ''ab12cd34'' = Some \<lparr>players = [], status = ''waiting''\<rparr>
   \<and> sessions (run (run init_state [CreateSession ''ab12cd34-0000-4000-8000-000000000000'' Raised])
        [JoinSession ''c2'' [''sessionId'' \<mapsto> JStr ''ab12cd34'', ''role'' \<mapsto> JStr ''controller''],
         Control ''c2'' [''sessionId'' \<mapsto> JStr ''ab12cd34'', ''direction'' \<mapsto> JStr ''up''],
         Disconnect ''c2''])
       = sessions (run init_state [CreateSession ''ab12cd34-0000-4000-8000-000000000000'' Raised])
   \<and> sessions (run init_state
        ([CreateSession ''ab12cd34-0000-4000-8000-000000000000'' Raised] @
         [JoinSession ''c2'' [''sessionId'' \<mapsto> JStr ''ab12cd34'', ''role'' \<mapsto> JStr ''controller''],
          Control ''c2'' [''sessionId'' \<mapsto> JStr ''ab12cd34'', ''direction'' \<mapsto> JStr ''up''],
          Disconnect ''c2'']))
         ''ab12cd34'' = Some \<lparr>players = [], status = ''waiting''\<rparr>"
proof -
  let ?es = "[JoinSession ''c2'' [''sessionId'' \<mapsto> JStr ''ab12cd34'', ''role'' \<mapsto> JStr ''controller''],
      Control ''c2'' [''sessionId'' \<mapsto> JStr ''ab12cd34'', ''direction'' \<mapsto> JStr ''up''],
      Disconnect ''c2'']"
  let ?cr = "[CreateSession ''ab12cd34-0000-4000-8000-000000000000'' Raised]"
  have rel: "list_all is_relay ?es" by simp
  have live: "sessions (run init_state ?cr) ''ab12cd34'' = Some \<lparr>players = [], status = ''waiting''\<rparr>"
    by (simp add: create_session_def get_local_ip_def Let_def init_state_def)
  note inst = relay_keeps_sessions [of ?es "run init_state ?cr" "''c2''" Map.empty ?cr ?es]
  from inst rel have same: "sessions (run (run init_state ?cr) ?es) = sessions (run init_state ?cr)"
    by blast
  from inst live have later: "sessions (run init_state (?cr @ ?es)) ''ab12cd34'' =
      Some \<lparr>players = [], status = ''waiting''\<rparr>"
    by blast
  from rel live same later show ?thesis by blast
qed

end
